theory Spec2Isabelle
  imports Main "HOL-Library.Sublist"
begin

section \<open>Documents and the context formatter\<close>

text \<open>
  A LangChain \<open>Document\<close> as the notebook uses it: the text of a chunk and its metadata
  (source path, language tag). Only \<open>page_content\<close> is read by the notebook's own code.
\<close>

record Document =
  page_content :: string
  metadata :: "(string \<times> string) list"

text \<open>
  Python's \<^verbatim>\<open>sep.join(items)\<close>: the items in order, the separator between each two
  neighbours, nothing before the first or after the last.
\<close>

fun join :: "string \<Rightarrow> string list \<Rightarrow> string" where
  "join sep [] = []"
| "join sep [x] = x"
| "join sep (x # y # ys) = x @ sep @ join sep (y # ys)"

text \<open>
  \<^verbatim>\<open>
  def format_docs(docs):
      return "\n\n".join(doc.page_content for doc in docs)
  \<close>
\<close>

definition format_docs :: "Document list \<Rightarrow> string" where
  "format_docs docs = join ''\<newline>\<newline>'' (map page_content docs)"

section \<open>The prompt template\<close>

text \<open>
  \<^verbatim>\<open>prompt = hub.pull("rlm/rag-prompt")\<close> is a chat prompt of one human message whose
  template the notebook prints (cell ``rlm/rag-prompt'') and whose rendering on
  \<^verbatim>\<open>{"context": "filler context", "question": "filler question"}\<close> it records as the
  output of \<^verbatim>\<open>prompt.invoke\<close>. The template text below is that recorded text with the
  two placeholders in place of the filler values.
\<close>

definition prompt_template :: string where
  "prompt_template =
     ''You are an assistant for question-answering tasks. '' @
     ''Use the following pieces of retrieved context to answer the question. '' @
     ''If you don't know the answer, just say that you don't know. '' @
     ''Use three sentences maximum and keep the answer concise.'' @
     ''\<newline>Question: {question} \<newline>Context: {context} \<newline>Answer:''"

datatype error = KeyError string | ValueError | Unsupported

datatype piece = Literal string | Slot string

datatype mode = InText | InField

definition lit :: "string \<Rightarrow> piece list" where
  "lit acc = (if acc = [] then [] else [Literal (rev acc)])"

definition plain_name_char :: "char \<Rightarrow> bool" where
  "plain_name_char c \<longleftrightarrow> c \<notin> set ''{!:.[''"

definition all_digits :: "string \<Rightarrow> bool" where
  "all_digits s = list_all (\<lambda>c. c \<in> set ''0123456789'') s"

text \<open>
  The template is a Python format string (LangChain's \<^verbatim>\<open>f-string\<close> template format
  hands it to \<^verbatim>\<open>string.Formatter\<close>). \<open>parse\<close> is the single left-to-right scan of
  that formatter over the template: \<^verbatim>\<open>{{\<close> and \<^verbatim>\<open>}}\<close> are escaped braces,
  \<^verbatim>\<open>{name}\<close> is a replacement field, a lone brace is a \<^verbatim>\<open>ValueError\<close>. The
  accumulator holds the current literal (or field name) reversed. Fields that are more
  than a plain keyword name (conversions \<^verbatim>\<open>!r\<close>, format specs \<^verbatim>\<open>:x\<close>, attribute
  and index access, nested braces, positional and empty names) are not modelled and are
  reported as \<open>Unsupported\<close>; the notebook's template has none.
\<close>

fun parse :: "mode \<Rightarrow> string \<Rightarrow> string \<Rightarrow> error + piece list" where
  "parse InText acc [] = Inr (lit acc)"
| "parse InField acc [] = Inl ValueError"
| "parse InText acc (c # cs) =
     (if c = CHR ''{'' then
        (case cs of
           [] \<Rightarrow> Inl ValueError
         | d # ds \<Rightarrow>
             if d = CHR ''{'' then parse InText (c # acc) ds
             else (case parse InField [] cs of
                     Inl e \<Rightarrow> Inl e
                   | Inr ps \<Rightarrow> Inr (lit acc @ ps)))
      else if c = CHR ''}'' then
        (case cs of
           [] \<Rightarrow> Inl ValueError
         | d # ds \<Rightarrow>
             if d = CHR ''}'' then parse InText (c # acc) ds
             else Inl ValueError)
      else parse InText (c # acc) cs)"
| "parse InField acc (c # cs) =
     (if c = CHR ''}'' then
        (if acc = [] \<or> all_digits acc then Inl Unsupported
         else (case parse InText [] cs of
                 Inl e \<Rightarrow> Inl e
               | Inr ps \<Rightarrow> Inr (Slot (rev acc) # ps)))
      else if plain_name_char c then parse InField (c # acc) cs
      else Inl Unsupported)"

text \<open>
  Formatting walks the parsed template once and copies each literal and, for each field,
  the value bound to its name in the keyword arguments. A name with no value is a
  \<^verbatim>\<open>KeyError\<close>. The values are copied as they are: they are never scanned for
  braces.
\<close>

fun format_pieces :: "piece list \<Rightarrow> (string \<rightharpoonup> string) \<Rightarrow> error + string" where
  "format_pieces [] kw = Inr []"
| "format_pieces (Literal s # ps) kw =
     (case format_pieces ps kw of Inl e \<Rightarrow> Inl e | Inr r \<Rightarrow> Inr (s @ r))"
| "format_pieces (Slot k # ps) kw =
     (case kw k of
        None \<Rightarrow> Inl (KeyError k)
      | Some v \<Rightarrow> (case format_pieces ps kw of Inl e \<Rightarrow> Inl e | Inr r \<Rightarrow> Inr (v @ r)))"

definition format_template :: "string \<Rightarrow> (string \<rightharpoonup> string) \<Rightarrow> error + string" where
  "format_template t kw =
     (case parse InText [] t of Inl e \<Rightarrow> Inl e | Inr ps \<Rightarrow> format_pieces ps kw)"

text \<open>
  The value of \<^verbatim>\<open>prompt.invoke(d)\<close>:
  \<^verbatim>\<open>ChatPromptValue(messages=[HumanMessage(content=...)])\<close>.
\<close>

datatype Message = HumanMessage string

datatype ChatPromptValue = ChatPromptValue "Message list"

definition prompt :: "(string \<rightharpoonup> string) \<Rightarrow> error + ChatPromptValue" where
  "prompt d =
     (case format_template prompt_template d of
        Inl e \<Rightarrow> Inl e
      | Inr s \<Rightarrow> Inr (ChatPromptValue [HumanMessage s]))"

section \<open>The chain\<close>

text \<open>
  \<^verbatim>\<open>
  rag_chain = (
      {"context": retriever | format_docs, "question": RunnablePassthrough()}
      | prompt
      | llm
      | StrOutputParser()
  )
  \<close>
  The pipe is function composition; the dictionary runs each of its entries on the
  chain's input and collects the results under the entry's key. The retriever and the
  language model are the external collaborators of the notebook and are parameters here.
\<close>

definition RunnablePassthrough :: "'a \<Rightarrow> 'a" where
  "RunnablePassthrough x = x"

definition StrOutputParser :: "string \<Rightarrow> string" where
  "StrOutputParser s = s"

definition rag_inputs :: "(string \<Rightarrow> Document list) \<Rightarrow> string \<Rightarrow> (string \<rightharpoonup> string)" where
  "rag_inputs retriever q =
     [''context'' \<mapsto> format_docs (retriever q), ''question'' \<mapsto> RunnablePassthrough q]"

definition rag_prompt :: "(string \<Rightarrow> Document list) \<Rightarrow> string \<Rightarrow> error + ChatPromptValue" where
  "rag_prompt retriever q = prompt (rag_inputs retriever q)"

definition rag_chain ::
  "(string \<Rightarrow> Document list) \<Rightarrow> (ChatPromptValue \<Rightarrow> string) \<Rightarrow> string \<Rightarrow> error + string" where
  "rag_chain retriever llm q =
     (case rag_prompt retriever q of
        Inl e \<Rightarrow> Inl e
      | Inr p \<Rightarrow> Inr (StrOutputParser (llm p)))"

text \<open>The three literal parts of the template, around the two fields.\<close>

definition instruction :: string where
  "instruction =
     ''You are an assistant for question-answering tasks. '' @
     ''Use the following pieces of retrieved context to answer the question. '' @
     ''If you don't know the answer, just say that you don't know. '' @
     ''Use three sentences maximum and keep the answer concise.'' @
     ''\<newline>Question: ''"

definition context_label :: string where
  "context_label = '' \<newline>Context: ''"

definition answer_label :: string where
  "answer_label = '' \<newline>Answer:''"

section \<open>Prompt assembly as the specification words it\<close>

text \<open>
  The specification's ``joining retrieved texts with a fixed separator'', written from
  its words and independently of \<open>join\<close>: the first text, then every further text
  with the separator in front of it. Nothing of the context formatter is used here.
\<close>

definition joined_spec :: "string \<Rightarrow> string list \<Rightarrow> string" where
  "joined_spec sep retrieved_texts =
     (case retrieved_texts of
        [] \<Rightarrow> []
      | x # xs \<Rightarrow> x @ concat (map (\<lambda>y. sep @ y) xs))"

text \<open>
  The specification's \<^verbatim>\<open>assemble(question, retrieved_texts) -> prompt_string\<close>, written
  from its words and not from the code: the retrieved texts joined with the fixed
  separator of two newlines, and the question and the joined context put into the fixed
  instruction template. It is compared with the chain's own prompt step below.
\<close>

definition assemble_spec :: "string \<Rightarrow> string list \<Rightarrow> string" where
  "assemble_spec question retrieved_texts =
     instruction @ question @ context_label @
     joined_spec [CHR 0x0A, CHR 0x0A] retrieved_texts @ answer_label"

section \<open>The template and its rendering\<close>

lemma parse_prompt_template:
  "parse InText [] prompt_template =
     Inr [Literal instruction, Slot ''question'', Literal context_label,
          Slot ''context'', Literal answer_label]"
  by (simp add: prompt_template_def instruction_def context_label_def answer_label_def
      lit_def plain_name_char_def all_digits_def)

lemma prompt_eq:
  assumes "d ''question'' = Some q" and "d ''context'' = Some c"
  shows "prompt d =
           Inr (ChatPromptValue
                  [HumanMessage (instruction @ q @ context_label @ c @ answer_label)])"
  using assms by (simp add: prompt_def format_template_def parse_prompt_template)

text \<open>
  The rendering the notebook records for
  \<^verbatim>\<open>prompt.invoke({"context": "filler context", "question": "filler question"})\<close>.
\<close>

lemma prompt_filler:
  "prompt [''context'' \<mapsto> ''filler context'', ''question'' \<mapsto> ''filler question''] =
     Inr (ChatPromptValue [HumanMessage
       (''You are an assistant for question-answering tasks. '' @
        ''Use the following pieces of retrieved context to answer the question. '' @
        ''If you don't know the answer, just say that you don't know. '' @
        ''Use three sentences maximum and keep the answer concise.'' @
        ''\<newline>Question: filler question \<newline>Context: filler context \<newline>Answer:'')])"
proof -
  have "prompt [''context'' \<mapsto> ''filler context'', ''question'' \<mapsto> ''filler question''] =
          Inr (ChatPromptValue [HumanMessage
            (instruction @ ''filler question'' @ context_label @ ''filler context'' @
             answer_label)])"
    by (rule prompt_eq) simp_all
  then show ?thesis
    by (simp add: instruction_def context_label_def answer_label_def)
qed

lemma rag_inputs_question: "rag_inputs retriever q ''question'' = Some q"
  by (simp add: rag_inputs_def RunnablePassthrough_def)

lemma rag_inputs_context:
  "rag_inputs retriever q ''context'' = Some (format_docs (retriever q))"
  by (simp add: rag_inputs_def)

lemma rag_prompt_eq:
  "rag_prompt retriever q =
     Inr (ChatPromptValue
            [HumanMessage (instruction @ q @ context_label @ format_docs (retriever q) @
                           answer_label)])"
  unfolding rag_prompt_def
  by (rule prompt_eq) (rule rag_inputs_question, rule rag_inputs_context)

section \<open>Values are copied verbatim\<close>

lemma sublist_join: "t \<in> set ts \<Longrightarrow> sublist t (join sep ts)"
proof (induction sep ts rule: join.induct)
  case (1 sep)
  then show ?case by simp
next
  case (2 sep x)
  then show ?case by simp
next
  case (3 sep x y ys)
  show ?case
  proof (cases "t = x")
    case True
    then show ?thesis by simp
  next
    case False
    with "3.prems" have "t \<in> set (y # ys)" by simp
    then have "sublist t (join sep (y # ys))" by (rule "3.IH")
    then obtain ps ss where "join sep (y # ys) = ps @ t @ ss"
      by (auto simp: sublist_def)
    then have "join sep (x # y # ys) = (x @ sep @ ps) @ t @ ss" by simp
    then show ?thesis unfolding sublist_def by blast
  qed
qed

text \<open>The context formatter's \<open>join\<close> does what the specification's joining says.\<close>

lemma join_joined_spec: "join sep ts = joined_spec sep ts"
proof (induction sep ts rule: join.induct)
  case (1 sep)
  show ?case by (simp add: joined_spec_def)
next
  case (2 sep x)
  show ?case by (simp add: joined_spec_def)
next
  case (3 sep x y ys)
  then have "join sep (y # ys) = y @ concat (map (\<lambda>z. sep @ z) ys)"
    by (simp add: joined_spec_def)
  then show ?case by (simp add: joined_spec_def)
qed

lemma format_docs_joined_spec:
  "format_docs docs = joined_spec [CHR 0x0A, CHR 0x0A] (map page_content docs)"
  by (simp add: format_docs_def join_joined_spec)

lemma sublist_format_docs:
  "d \<in> set docs \<Longrightarrow> sublist (page_content d) (format_docs docs)"
  unfolding format_docs_def by (rule sublist_join) simp

lemma sublist_in_context:
  assumes "sublist t c"
  shows "sublist t (a @ q @ b @ c @ e)"
proof -
  from assms obtain ps ss where "c = ps @ t @ ss" by (auto simp: sublist_def)
  then have "a @ q @ b @ c @ e = (a @ q @ b @ ps) @ t @ (ss @ e)" by simp
  then show ?thesis unfolding sublist_def by blast
qed

text \<open>
  For any parsed template: whatever value is bound to a field of the template occurs
  unchanged in the formatted text.
\<close>

lemma sublist_after: "sublist v r \<Longrightarrow> sublist v (s @ r)"
proof -
  assume "sublist v r"
  then obtain ps ss where "r = ps @ v @ ss" by (auto simp: sublist_def)
  then have "s @ r = (s @ ps) @ v @ ss" by simp
  then show ?thesis unfolding sublist_def by blast
qed

lemma format_pieces_verbatim:
  "format_pieces ps kw = Inr r \<Longrightarrow> Slot k \<in> set ps \<Longrightarrow> kw k = Some v \<Longrightarrow> sublist v r"
proof (induction ps kw arbitrary: r rule: format_pieces.induct)
  case (1 kw)
  then show ?case by simp
next
  case (2 s ps kw)
  from "2.prems"(1) obtain r' where r': "format_pieces ps kw = Inr r'" and r: "r = s @ r'"
    by (auto split: sum.splits)
  from "2.prems"(2) have "Slot k \<in> set ps" by simp
  with r' have "sublist v r'" using "2.prems"(3) by (rule "2.IH")
  then show ?case unfolding r by (rule sublist_after)
next
  case (3 k' ps kw)
  from "3.prems"(1) obtain v' r' where v': "kw k' = Some v'"
    and r': "format_pieces ps kw = Inr r'" and r: "r = v' @ r'"
    by (auto split: option.splits sum.splits)
  show ?case
  proof (cases "k = k'")
    case True
    with v' "3.prems"(3) have "v' = v" by simp
    then show ?thesis unfolding r by simp
  next
    case False
    with "3.prems"(2) have "Slot k \<in> set ps" by simp
    with r' have "sublist v r'" using "3.prems"(3) by (rule "3.IH"[OF v'])
    then show ?thesis unfolding r by (rule sublist_after)
  qed
qed

section \<open>Prompt assembly\<close>

text \<open>
  C8. Prompt assembly is a pure function of the question and the retrieved texts: for
  every retriever and every question, the prompt step of the chain succeeds and its one
  human message is the specification's \<open>assemble_spec\<close> of the question and the
  page contents of the retrieved documents. \<open>assemble_spec\<close> is written without the
  context formatter: it is the fixed instruction, the question, the context label, the
  first retrieved text followed by each further text with two newlines in front of it,
  and the answer label. So the texts are joined with exactly the separator of two
  newlines, in retrieval order, and placed with the question into the fixed template.
  Nothing is validated or escaped: every retrieved text, whatever it contains, occurs
  unchanged inside the assembled prompt.
\<close>

theorem prompt_assembly:
  "rag_prompt retriever question =
     Inr (ChatPromptValue
            [HumanMessage (assemble_spec question (map page_content (retriever question)))])
   \<and> (\<forall>d \<in> set (retriever question).
         \<exists>before after.
           assemble_spec question (map page_content (retriever question)) =
             before @ page_content d @ after)"
proof
  show "rag_prompt retriever question =
          Inr (ChatPromptValue
                 [HumanMessage (assemble_spec question (map page_content (retriever question)))])"
    by (simp add: rag_prompt_eq assemble_spec_def format_docs_joined_spec)
next
  show "\<forall>d \<in> set (retriever question).
          \<exists>before after.
            assemble_spec question (map page_content (retriever question)) =
              before @ page_content d @ after"
  proof
    fix d
    assume "d \<in> set (retriever question)"
    then have "sublist (page_content d) (format_docs (retriever question))"
      by (rule sublist_format_docs)
    then have "sublist (page_content d)
                 (instruction @ question @ context_label @
                  format_docs (retriever question) @ answer_label)"
      by (rule sublist_in_context)
    then show "\<exists>before after.
                 assemble_spec question (map page_content (retriever question)) =
                   before @ page_content d @ after"
      by (simp add: sublist_def assemble_spec_def format_docs_joined_spec)
  qed
qed

text \<open>
  The same at a retriever whose three chunks and whose question all contain
  template-like text: the braces come out as they went in, and the separator stands
  between each two neighbouring chunks.
\<close>

theorem prompt_assembly_witness:
  "rag_prompt
     (\<lambda>q. [\<lparr>page_content = ''{question}'', metadata = []\<rparr>,
           \<lparr>page_content = ''x = {context}'', metadata = []\<rparr>,
           \<lparr>page_content = ''{{y}}'', metadata = []\<rparr>])
     ''What is {context}?'' =
     Inr (ChatPromptValue [HumanMessage
       (''You are an assistant for question-answering tasks. '' @
        ''Use the following pieces of retrieved context to answer the question. '' @
        ''If you don't know the answer, just say that you don't know. '' @
        ''Use three sentences maximum and keep the answer concise.'' @
        ''\<newline>Question: What is {context}? '' @
        ''\<newline>Context: {question}\<newline>\<newline>x = {context}\<newline>\<newline>{{y}} \<newline>Answer:'')])
   \<and> (\<exists>before after.
         assemble_spec ''What is {context}?'' [''{question}'', ''x = {context}'', ''{{y}}''] =
           before @ ''x = {context}'' @ after)"
  using prompt_assembly
    [of "\<lambda>q. [\<lparr>page_content = ''{question}'', metadata = []\<rparr>,
               \<lparr>page_content = ''x = {context}'', metadata = []\<rparr>,
               \<lparr>page_content = ''{{y}}'', metadata = []\<rparr>]"
        "''What is {context}?''"]
  by (simp add: assemble_spec_def joined_spec_def instruction_def context_label_def
      answer_label_def)

section \<open>Edge cases of the context formatter\<close>

text \<open>
  C9. \<open>format_docs\<close> of the empty list of documents is the empty string, and
  \<open>format_docs\<close> of a one-element list is that document's page content unchanged.
  A query that retrieves nothing therefore still yields a prompt: the template with the
  question and an empty context.
\<close>

theorem format_docs_edge_cases:
  "format_docs [] = []
   \<and> format_docs [d] = page_content d
   \<and> rag_prompt (\<lambda>q. []) question =
       Inr (ChatPromptValue
              [HumanMessage (instruction @ question @ context_label @ answer_label)])"
  by (simp add: format_docs_def rag_prompt_eq)

theorem format_docs_edge_cases_witness:
  "format_docs [] = []
   \<and> format_docs [\<lparr>page_content = ''def get_python_command():'', metadata = []\<rparr>] =
       ''def get_python_command():''
   \<and> rag_prompt (\<lambda>q. []) ''What do the scraper do?'' =
       Inr (ChatPromptValue [HumanMessage
         (''You are an assistant for question-answering tasks. '' @
          ''Use the following pieces of retrieved context to answer the question. '' @
          ''If you don't know the answer, just say that you don't know. '' @
          ''Use three sentences maximum and keep the answer concise.'' @
          ''\<newline>Question: What do the scraper do? \<newline>Context:  \<newline>Answer:'')])"
  using format_docs_edge_cases
    [of "\<lparr>page_content = ''def get_python_command():'', metadata = []\<rparr>"
        "''What do the scraper do?''"]
  by (simp add: instruction_def context_label_def answer_label_def)

section \<open>The question reaches the prompt unchanged\<close>

text \<open>
  C10. For every question, the chain passes the question through unmodified: the value
  under the key \<open>question\<close> of the dictionary handed to the prompt is the chain's
  input itself, and the language model receives the template with exactly that text in
  the question slot (and the formatted retrieved documents in the context slot).
\<close>

theorem question_passthrough:
  "rag_inputs retriever question ''question'' = Some question
   \<and> rag_chain retriever llm question =
       Inr (llm (ChatPromptValue
                   [HumanMessage (instruction @ question @ context_label @
                                  format_docs (retriever question) @ answer_label)]))"
  by (simp add: rag_inputs_question rag_chain_def rag_prompt_eq StrOutputParser_def)

theorem question_passthrough_witness:
  "rag_inputs (\<lambda>q. [\<lparr>page_content = q, metadata = []\<rparr>])
     ''  {question} <b>What?</b>  '' ''question'' =
     Some ''  {question} <b>What?</b>  ''
   \<and> rag_chain (\<lambda>q. [\<lparr>page_content = q, metadata = []\<rparr>])
       (\<lambda>p. case p of ChatPromptValue ms \<Rightarrow> concat (map (\<lambda>m. case m of HumanMessage s \<Rightarrow> s) ms))
       ''  {question} <b>What?</b>  '' =
       Inr (''You are an assistant for question-answering tasks. '' @
            ''Use the following pieces of retrieved context to answer the question. '' @
            ''If you don't know the answer, just say that you don't know. '' @
            ''Use three sentences maximum and keep the answer concise.'' @
            ''\<newline>Question:   {question} <b>What?</b>   '' @
            ''\<newline>Context:   {question} <b>What?</b>   \<newline>Answer:'')"
  using question_passthrough
    [of "\<lambda>q. [\<lparr>page_content = q, metadata = []\<rparr>]"
        "''  {question} <b>What?</b>  ''"
        "\<lambda>p. case p of ChatPromptValue ms \<Rightarrow> concat (map (\<lambda>m. case m of HumanMessage s \<Rightarrow> s) ms)"]
  by (simp add: format_docs_def instruction_def context_label_def answer_label_def)

end
